theory Spec2Isabelle
  imports Complex_Main "HOL-Library.Word"
begin

section \<open>JavaScript values used by the request client\<close>

text \<open>
  A JavaScript string is a sequence of UTF-16 code units, and \<open>.length\<close> counts code
  units. String literals of the source are written with \<open>lit\<close>.
\<close>

type_synonym jsstring = "16 word list"

definition lit :: "string \<Rightarrow> jsstring" where
  "lit s = map (\<lambda>c. of_nat (of_char c)) s"

text \<open>
  A JavaScript number, as far as the client inspects it: \<open>Number.isFinite\<close> and
  truthiness tell finite values, \<open>NaN\<close> and the infinities apart. Finite values are
  idealised as reals (no rounding).
\<close>

datatype jsnum = Fin real | NaN | PosInf | NegInf

fun isFinite :: "jsnum option \<Rightarrow> bool" where
  "isFinite (Some (Fin r)) = True"
| "isFinite _ = False"

fun truthy :: "jsnum option \<Rightarrow> bool" where
  "truthy (Some (Fin r)) = (r \<noteq> 0)"
| "truthy (Some NaN) = False"
| "truthy (Some PosInf) = True"
| "truthy (Some NegInf) = True"
| "truthy None = False"

text \<open>Template-literal rendering of a non-negative integer (\<open>`${status}`\<close>).\<close>

fun digit_unit :: "nat \<Rightarrow> 16 word" where
  "digit_unit d = of_nat (48 + d)"

fun toString_nat :: "nat \<Rightarrow> jsstring" where
  "toString_nat n =
     (if n < 10 then [digit_unit n] else toString_nat (n div 10) @ [digit_unit (n mod 10)])"

section \<open>The transport: what one \<open>fetch\<close> attempt yields\<close>

text \<open>
  A response as the client reads it: status, reason phrase, headers (looked up by
  lower-case name, \<open>None\<close> when absent) and the body text. \<open>response.ok\<close> is the Fetch
  standard's getter: the status is in the range 200 to 299.
\<close>

record Response =
  resp_status :: nat
  resp_statusText :: jsstring
  resp_headers :: "jsstring \<rightharpoonup> jsstring"
  resp_text :: jsstring

definition response_ok :: "Response \<Rightarrow> bool" where
  "response_ok response = (200 \<le> resp_status response \<and> resp_status response \<le> 299)"

text \<open>
  A value thrown inside the \<open>try\<close> block, by \<open>fetch\<close> or while the body is read: an
  \<open>Error\<close> object with its message, or any other value with its truthiness and its
  \<open>String(...)\<close> rendering. An attempt either yields a response whose body was read, or
  throws. The payload is opaque: \<open>JSON.stringify\<close> is not modelled.
\<close>

datatype thrown = ErrorObject jsstring | OtherValue bool jsstring

datatype attempt = Responds Response | Throws thrown

datatype http_method = GET | POST | PATCH

text \<open>
  The signal handed to \<open>fetch\<close>: the caller's \<open>AbortSignal\<close> (identified by a number) or
  the signal of the controller that \<open>send\<close> creates for its own timeout.
\<close>

datatype abort_signal = CallerSignal nat | ControllerSignal

record init =
  signal :: "nat option"
  headers :: "(jsstring \<rightharpoonup> jsstring) option"
  timeoutMs :: "jsnum option"

text \<open>
  One invocation of \<open>fetch\<close> as \<open>send\<close> issues it, with the timer armed for the attempt
  (\<open>call_timeout\<close>, cleared in the \<open>finally\<close> block).
\<close>

record 'd FetchCall =
  call_url :: jsstring
  call_method :: http_method
  call_headers :: "jsstring \<rightharpoonup> jsstring"
  call_body :: "'d option"
  call_signal :: "abort_signal option"
  call_timeout :: "jsnum option"

section \<open>RequestClient\<close>

text \<open>
  The retry policy. \<open>maxRetries\<close> is an integer (negative values are allowed and leave no
  retry); the delays are reals, in milliseconds.
\<close>

record RetryConfig =
  maxRetries :: int
  baseDelay :: real
  maxDelay :: real

record RequestResult =
  ok :: bool
  status :: nat
  retryAfter :: "real option"
  bodyText :: "jsstring option"
  error :: "jsstring option"

record RequestClient =
  webhookUrl :: jsstring
  retryCount :: nat
  retryConfig :: RetryConfig

definition DEFAULT_RETRY_CONFIG :: RetryConfig where
  "DEFAULT_RETRY_CONFIG = \<lparr>maxRetries = 3, baseDelay = 1000, maxDelay = 60000\<rparr>"

text \<open>The constructor: a partial configuration is spread over the defaults.\<close>

definition new_RequestClient ::
  "jsstring \<Rightarrow> int option \<Rightarrow> real option \<Rightarrow> real option \<Rightarrow> RequestClient" where
  "new_RequestClient url mr bd md =
     \<lparr>webhookUrl = url, retryCount = 0,
      retryConfig =
        \<lparr>maxRetries = (case mr of Some v \<Rightarrow> v | None \<Rightarrow> maxRetries DEFAULT_RETRY_CONFIG),
         baseDelay = (case bd of Some v \<Rightarrow> v | None \<Rightarrow> baseDelay DEFAULT_RETRY_CONFIG),
         maxDelay = (case md of Some v \<Rightarrow> v | None \<Rightarrow> maxDelay DEFAULT_RETRY_CONFIG)\<rparr>\<rparr>"

text \<open>\<open>delay(second)\<close> arms a timer of \<open>second * 1000\<close> milliseconds; this is the wait.\<close>

definition delay :: "real \<Rightarrow> real" where
  "delay second = second * 1000"

text \<open>\<open>calculateBackoff\<close>, with the value drawn by \<open>Math.random()\<close> as an argument.\<close>

definition calculateBackoff :: "RequestClient \<Rightarrow> real \<Rightarrow> real" where
  "calculateBackoff c random =
     (let exponential =
            min (maxDelay (retryConfig c)) (baseDelay (retryConfig c) * 2 ^ retryCount c);
          jitter = exponential * 0.2 * (random - 0.5);
          withJitter = exponential + jitter
      in max 0 withJitter)"

definition shouldRetry :: "RequestClient \<Rightarrow> nat \<Rightarrow> bool" where
  "shouldRetry c st =
     (int (retryCount c) < maxRetries (retryConfig c) \<and>
      (st = 429 \<or> st = 0 \<or> (st \<ge> 500 \<and> st < 600)))"

text \<open>
  The retry hint of a response (lines 91 to 102 of \<open>send\<close>). \<open>Number.parseFloat\<close> is a
  built-in of the language, taken as the parameter \<open>pf\<close>.
\<close>

definition retryAfterHeader :: "Response \<Rightarrow> jsstring option" where
  "retryAfterHeader response =
     (case resp_headers response (lit ''retry-after'') of
        Some v \<Rightarrow> Some v
      | None \<Rightarrow> resp_headers response (lit ''x-ratelimit-reset-after''))"

definition retryAfterSeconds :: "(jsstring \<Rightarrow> jsnum) \<Rightarrow> Response \<Rightarrow> jsnum option" where
  "retryAfterSeconds pf response =
     (case retryAfterHeader response of
        Some h \<Rightarrow> (if h \<noteq> [] then Some (pf h) else None)
      | None \<Rightarrow> None)"

definition retryAfterMs :: "(jsstring \<Rightarrow> jsnum) \<Rightarrow> Response \<Rightarrow> real option" where
  "retryAfterMs pf response =
     (let s = retryAfterSeconds pf response
      in if isFinite s \<and> truthy s
         then (case s of Some (Fin r) \<Rightarrow> Some (r * 1000) | _ \<Rightarrow> None)
         else None)"

text \<open>\<open>x || undefined\<close> and \<open>x || y\<close> on strings: the empty string is falsy.\<close>

definition or_undefined :: "jsstring \<Rightarrow> jsstring option" where
  "or_undefined s = (if s = [] then None else Some s)"

definition or_else :: "jsstring \<Rightarrow> jsstring \<Rightarrow> jsstring" where
  "or_else s t = (if s = [] then t else s)"

text \<open>The three outcomes that \<open>send\<close> builds.\<close>

definition successResult :: "(jsstring \<Rightarrow> jsnum) \<Rightarrow> Response \<Rightarrow> RequestResult" where
  "successResult pf response =
     \<lparr>ok = True, status = resp_status response, retryAfter = retryAfterMs pf response,
      bodyText = or_undefined (resp_text response), error = None\<rparr>"

definition errorResult :: "(jsstring \<Rightarrow> jsnum) \<Rightarrow> Response \<Rightarrow> RequestResult" where
  "errorResult pf response =
     \<lparr>ok = False, status = resp_status response, retryAfter = retryAfterMs pf response,
      bodyText = or_undefined (resp_text response),
      error = Some (or_else (resp_text response)
                (or_else (resp_statusText response)
                   (lit ''HTTP '' @ toString_nat (resp_status response))))\<rparr>"

fun thrown_message :: "thrown \<Rightarrow> jsstring" where
  "thrown_message (ErrorObject m) = m"
| "thrown_message (OtherValue t s) = (if t then s else [])"

definition networkResult :: "thrown \<Rightarrow> RequestResult" where
  "networkResult e =
     \<lparr>ok = False, status = 0, retryAfter = None, bodyText = None,
      error = Some (or_else (thrown_message e) (lit ''Network error''))\<rparr>"

text \<open>The call that one attempt hands to \<open>fetch\<close> (lines 73 to 88).\<close>

definition fetch_call ::
  "RequestClient \<Rightarrow> http_method \<Rightarrow> 'd \<Rightarrow> init option \<Rightarrow> 'd FetchCall" where
  "fetch_call c method data i =
     (let sig = (case i of Some x \<Rightarrow> signal x | None \<Rightarrow> None);
          hdrs = (case i of Some x \<Rightarrow> (case headers x of Some h \<Rightarrow> h | None \<Rightarrow> Map.empty)
                  | None \<Rightarrow> Map.empty);
          tmo = (case i of Some x \<Rightarrow> timeoutMs x | None \<Rightarrow> None);
          controller = (if truthy tmo then Some ControllerSignal else None);
          timeout = (if truthy tmo then tmo else None)
      in \<lparr>call_url = webhookUrl c, call_method = method,
          call_headers = [lit ''Content-Type'' \<mapsto> lit ''application/json''] ++ hdrs,
          call_body = (if method = GET then None else Some data),
          call_signal = (case controller of Some s \<Rightarrow> Some s
                         | None \<Rightarrow> map_option CallerSignal sig),
          call_timeout = timeout\<rparr>)"

text \<open>
  What a top-level \<open>send\<close> leaves behind: the result, the client afterwards, the
  \<open>fetch\<close> calls in order and the waits between them in milliseconds.
\<close>

record 'd run =
  result :: RequestResult
  client_after :: RequestClient
  calls :: "'d FetchCall list"
  waits :: "real list"

definition after_wait :: "'d FetchCall \<Rightarrow> real \<Rightarrow> 'd run \<Rightarrow> 'd run" where
  "after_wait call w r = r\<lparr>calls := call # calls r, waits := w # waits r\<rparr>"

text \<open>
  \<open>send\<close>. The transport is the stream \<open>fetch\<close>: \<open>fetch k\<close> is what the \<open>k\<close>-th
  invocation from now yields, a response or a thrown value. \<open>rnd k\<close> is the value of
  \<open>Math.random()\<close> available to that attempt. The self-call after a wait sees the rest of
  both streams.
\<close>

function send ::
  "(jsstring \<Rightarrow> jsnum) \<Rightarrow> (nat \<Rightarrow> attempt) \<Rightarrow> (nat \<Rightarrow> real) \<Rightarrow>
     http_method \<Rightarrow> 'd \<Rightarrow> init option \<Rightarrow> RequestClient \<Rightarrow> 'd run" where
  "send pf fetch rnd method data i c =
     (case fetch 0 of
        Responds response \<Rightarrow>
          if response_ok response then
            \<lparr>result = successResult pf response, client_after = c\<lparr>retryCount := 0\<rparr>,
             calls = [fetch_call c method data i], waits = []\<rparr>
          else if shouldRetry c (resp_status response) then
            (let c' = c\<lparr>retryCount := retryCount c + 1\<rparr>;
                 delayMs =
                   (if resp_status response = 429
                    then (case retryAfterMs pf response of
                            Some ms \<Rightarrow> ms
                          | None \<Rightarrow> calculateBackoff c' (rnd 0))
                    else calculateBackoff c' (rnd 0))
             in after_wait (fetch_call c method data i) (delay (delayMs / 1000))
                  (send pf (\<lambda>k. fetch (Suc k)) (\<lambda>k. rnd (Suc k)) method data i c'))
          else
            \<lparr>result = errorResult pf response, client_after = c\<lparr>retryCount := 0\<rparr>,
             calls = [fetch_call c method data i], waits = []\<rparr>
      | Throws e \<Rightarrow>
          if shouldRetry c 0 then
            (let c' = c\<lparr>retryCount := retryCount c + 1\<rparr>
             in after_wait (fetch_call c method data i) (delay (calculateBackoff c' (rnd 0) / 1000))
                  (send pf (\<lambda>k. fetch (Suc k)) (\<lambda>k. rnd (Suc k)) method data i c'))
          else
            \<lparr>result = networkResult e, client_after = c\<lparr>retryCount := 0\<rparr>,
             calls = [fetch_call c method data i], waits = []\<rparr>)"
  by pat_completeness auto
termination
  by (relation "measure (\<lambda>(pf, fetch, rnd, method, data, i, c).
        nat (maxRetries (retryConfig c) - int (retryCount c)))")
     (auto simp: shouldRetry_def)

declare send.simps [simp del]

section \<open>Webhook\<close>

text \<open>
  The parts of a webhook that \<open>validate\<close> and \<open>toObject\<close> read. \<open>validate\<close> reads the name
  and the value of a field through optional chaining, so both may be absent. The nested
  objects of an embed (footer, image, thumbnail, video, provider, author) are left out:
  \<open>validate\<close> does not look at them. The field \<open>file\<close> of the class is \<open>webhook_file\<close> here.
\<close>

record IField =
  field_name :: "jsstring option"
  field_value :: "jsstring option"
  field_inline :: "bool option"

record IEmbed =
  title :: "jsstring option"
  description :: "jsstring option"
  url :: "jsstring option"
  timestamp :: "jsstring option"
  color :: "nat option"
  embed_fields :: "IField list option"

record ValidationError =
  message :: string
  field :: "string option"
  maxLength :: "nat option"
  actualLength :: "nat option"

record Webhook =
  client :: RequestClient
  username :: "jsstring option"
  avatar_url :: "jsstring option"
  tts :: "bool option"
  content :: "jsstring option"
  webhook_file :: "jsstring option"
  embeds :: "IEmbed list option"

text \<open>The object that \<open>toObject\<close> builds.\<close>

record IWebhook =
  o_username :: "jsstring option"
  o_avatar_url :: "jsstring option"
  o_tts :: "bool option"
  o_content :: "jsstring option"
  o_file :: "jsstring option"
  o_embeds :: "IEmbed list option"

definition toObject :: "Webhook \<Rightarrow> IWebhook" where
  "toObject w =
     \<lparr>o_username = username w, o_avatar_url = avatar_url w, o_tts = tts w,
      o_content = content w, o_file = webhook_file w, o_embeds = embeds w\<rparr>"

text \<open>\<open>x?.length ?? 0\<close> and \<open>x ?? []\<close>.\<close>

definition length_or_0 :: "'a list option \<Rightarrow> nat" where
  "length_or_0 x = (case x of Some xs \<Rightarrow> length xs | None \<Rightarrow> 0)"

definition or_empty :: "'a list option \<Rightarrow> 'a list" where
  "or_empty x = (case x of Some xs \<Rightarrow> xs | None \<Rightarrow> [])"

text \<open>\<open>validate\<close>: \<open>Inl e\<close> when it throws \<open>e\<close>, \<open>Inr ()\<close> when it returns. The two loops
  stop at the first violation.\<close>

fun validate_fields :: "IField list \<Rightarrow> ValidationError + unit" where
  "validate_fields [] = Inr ()"
| "validate_fields (f # fs) =
     (if length_or_0 (field_name f) > 255 then
        Inl \<lparr>message = ''Field name length exceeds 255 characters'',
             field = Some ''field.name'', maxLength = Some 255,
             actualLength = map_option length (field_name f)\<rparr>
      else if length_or_0 (field_value f) > 1024 then
        Inl \<lparr>message = ''Field value length exceeds 1024 characters'',
             field = Some ''field.value'', maxLength = Some 1024,
             actualLength = map_option length (field_value f)\<rparr>
      else validate_fields fs)"

fun validate_embeds :: "IEmbed list \<Rightarrow> ValidationError + unit" where
  "validate_embeds [] = Inr ()"
| "validate_embeds (em # es) =
     (if length_or_0 (embed_fields em) > 25 then
        Inl \<lparr>message = ''Fields length exceeds 25'', field = Some ''fields'',
             maxLength = Some 25, actualLength = None\<rparr>
      else (case validate_fields (or_empty (embed_fields em)) of
              Inl e \<Rightarrow> Inl e
            | Inr _ \<Rightarrow> validate_embeds es))"

definition validate :: "Webhook \<Rightarrow> ValidationError + unit" where
  "validate w =
     (if length_or_0 (content w) > 2000 then
        Inl \<lparr>message = ''Content length exceeds 2000 characters'', field = Some ''content'',
             maxLength = Some 2000, actualLength = map_option length (content w)\<rparr>
      else if length_or_0 (embeds w) > 10 then
        Inl \<lparr>message = ''Embeds length exceeds 10'', field = Some ''embeds'',
             maxLength = Some 10, actualLength = None\<rparr>
      else validate_embeds (or_empty (embeds w)))"

text \<open>
  \<open>Webhook.send\<close>: the webhook afterwards, the \<open>fetch\<close> calls made, the waits, and either
  the thrown \<open>ValidationError\<close> or the result of the client.
\<close>

record delivery =
  webhook_after :: Webhook
  requests :: "IWebhook FetchCall list"
  pauses :: "real list"
  outcome :: "ValidationError + RequestResult"

definition Webhook_send ::
  "(jsstring \<Rightarrow> jsnum) \<Rightarrow> (nat \<Rightarrow> attempt) \<Rightarrow> (nat \<Rightarrow> real) \<Rightarrow> init option \<Rightarrow>
     Webhook \<Rightarrow> delivery" where
  "Webhook_send pf fetch rnd i w =
     (case validate w of
        Inl e \<Rightarrow> \<lparr>webhook_after = w, requests = [], pauses = [], outcome = Inl e\<rparr>
      | Inr _ \<Rightarrow>
          (let r = send pf fetch rnd POST (toObject w) i (client w)
           in \<lparr>webhook_after = w\<lparr>client := client_after r\<rparr>, requests = calls r,
               pauses = waits r, outcome = Inr (result r)\<rparr>))"

section \<open>A sample of \<open>Number.parseFloat\<close>\<close>

text \<open>
  \<open>parseFloat_plain\<close> reads an optional sign, decimal digits and an optional fraction, and
  ignores what follows; without a digit it is \<open>NaN\<close>. On strings that start this way (no
  leading white space, no exponent, not \<open>Infinity\<close>) it is the value of
  \<open>Number.parseFloat\<close>. It instantiates the parameter \<open>pf\<close> at concrete inputs.
\<close>

definition is_digit :: "16 word \<Rightarrow> bool" where
  "is_digit u = (48 \<le> unat u \<and> unat u \<le> 57)"

definition digits_value :: "jsstring \<Rightarrow> nat" where
  "digits_value ds = foldl (\<lambda>a u. 10 * a + (unat u - 48)) 0 ds"

definition parseFloat_plain :: "jsstring \<Rightarrow> jsnum" where
  "parseFloat_plain s =
     (let neg = (s \<noteq> [] \<and> hd s = 45);
          s1 = (if s \<noteq> [] \<and> (hd s = 45 \<or> hd s = 43) then tl s else s);
          ip = takeWhile is_digit s1;
          r1 = dropWhile is_digit s1;
          fp = (if r1 \<noteq> [] \<and> hd r1 = 46 then takeWhile is_digit (tl r1) else [])
      in if ip = [] \<and> fp = [] then NaN
         else Fin ((if neg then - 1 else 1) *
                (real (digits_value ip) + real (digits_value fp) / 10 ^ length fp)))"

text \<open>Sample inputs: a response as \<open>new Response(body, {status, headers})\<close> builds it, and
  a client with the default delays.\<close>

definition sample_response :: "nat \<Rightarrow> (jsstring \<rightharpoonup> jsstring) \<Rightarrow> jsstring \<Rightarrow> Response" where
  "sample_response st hs body =
     \<lparr>resp_status = st, resp_statusText = [], resp_headers = hs, resp_text = body\<rparr>"

definition sample_client :: "int \<Rightarrow> RequestClient" where
  "sample_client n = new_RequestClient (lit ''https://example.invalid/hook'') (Some n) None None"

definition hinted :: "nat \<Rightarrow> Response" where
  "hinted st = sample_response st [lit ''retry-after'' \<mapsto> lit ''2.5''] []"

definition hinted_transport :: "nat \<Rightarrow> attempt" where
  "hinted_transport k =
     (if k = 0 then Responds (hinted 429)
      else if k = 1 then Responds (hinted 500)
      else Responds (sample_response 204 Map.empty []))"

definition not_found_with_hint :: "jsstring \<Rightarrow> attempt" where
  "not_found_with_hint h = Responds (sample_response 404 [lit ''retry-after'' \<mapsto> h] [])"

definition both_options :: init where
  "both_options = \<lparr>signal = Some 7, headers = None, timeoutMs = Some (Fin 5000)\<rparr>"

definition retried_client :: RequestClient where
  "retried_client = (sample_client 5)\<lparr>retryCount := 3\<rparr>"

definition sample_webhook :: "jsstring option \<Rightarrow> Webhook" where
  "sample_webhook text =
     \<lparr>client = sample_client 3, username = None, avatar_url = None, tts = None,
      content = text, webhook_file = None, embeds = None\<rparr>"

section \<open>One step of \<open>send\<close>, and induction along the retry chain\<close>

text \<open>Whether an attempt is followed by a retry, its outcome if not, and the wait if so.\<close>

fun retries :: "RequestClient \<Rightarrow> attempt \<Rightarrow> bool" where
  "retries c (Responds response) =
     (\<not> response_ok response \<and> shouldRetry c (resp_status response))"
| "retries c (Throws e) = shouldRetry c 0"

fun outcome_of :: "(jsstring \<Rightarrow> jsnum) \<Rightarrow> attempt \<Rightarrow> RequestResult" where
  "outcome_of pf (Responds response) =
     (if response_ok response then successResult pf response else errorResult pf response)"
| "outcome_of pf (Throws e) = networkResult e"

fun wait_after ::
  "(jsstring \<Rightarrow> jsnum) \<Rightarrow> attempt \<Rightarrow> RequestClient \<Rightarrow> real \<Rightarrow> real" where
  "wait_after pf (Responds response) c' u =
     (if resp_status response = 429
      then (case retryAfterMs pf response of Some ms \<Rightarrow> ms | None \<Rightarrow> calculateBackoff c' u)
      else calculateBackoff c' u)"
| "wait_after pf (Throws e) c' u = calculateBackoff c' u"

fun attempt_status :: "attempt \<Rightarrow> nat" where
  "attempt_status (Responds response) = resp_status response"
| "attempt_status (Throws e) = 0"

definition retryable_status :: "nat \<Rightarrow> bool" where
  "retryable_status st = (st = 429 \<or> st = 0 \<or> (500 \<le> st \<and> st < 600))"

text \<open>The retries that the counter still allows.\<close>

definition budget :: "RequestClient \<Rightarrow> nat" where
  "budget c = nat (maxRetries (retryConfig c) - int (retryCount c))"

text \<open>
  The exponential part of the backoff, and the mean of the delay over \<open>n\<close> equally spaced
  draws (the midpoints of \<open>n\<close> equal parts of the unit interval). The expected delay under
  a uniform draw is the limit of these means.
\<close>

definition capped_exponential :: "RequestClient \<Rightarrow> real" where
  "capped_exponential c =
     min (maxDelay (retryConfig c)) (baseDelay (retryConfig c) * 2 ^ retryCount c)"

definition mean_backoff :: "RequestClient \<Rightarrow> nat \<Rightarrow> real" where
  "mean_backoff c n = (\<Sum>j<n. calculateBackoff c ((real j + 1 / 2) / real n)) / real n"

text \<open>The size limits in the words of the claim.\<close>

definition exceeds_limits :: "Webhook \<Rightarrow> bool" where
  "exceeds_limits w =
     (length_or_0 (content w) > 2000 \<or> length_or_0 (embeds w) > 10 \<or>
      (\<exists>em \<in> set (or_empty (embeds w)).
         length_or_0 (embed_fields em) > 25 \<or>
         (\<exists>f \<in> set (or_empty (embed_fields em)).
            length_or_0 (field_name f) > 255 \<or> length_or_0 (field_value f) > 1024)))"

section \<open>Facts about every run of \<open>send\<close>\<close>

lemma delay_ms [simp]: "delay (x / 1000) = x"
  by (simp add: delay_def)

lemma fetch_call_retryCount [simp]:
  "fetch_call (c\<lparr>retryCount := n\<rparr>) m d i = fetch_call c m d i"
  by (simp add: fetch_call_def)

lemma send_unfold:
  "send pf fetch rnd m d i c =
     (if retries c (fetch 0)
      then after_wait (fetch_call c m d i)
             (wait_after pf (fetch 0) (c\<lparr>retryCount := retryCount c + 1\<rparr>) (rnd 0))
             (send pf (\<lambda>k. fetch (Suc k)) (\<lambda>k. rnd (Suc k)) m d i
                (c\<lparr>retryCount := retryCount c + 1\<rparr>))
      else \<lparr>result = outcome_of pf (fetch 0), client_after = c\<lparr>retryCount := 0\<rparr>,
            calls = [fetch_call c m d i], waits = []\<rparr>)"
  by (subst send.simps) (auto simp: Let_def split: attempt.splits)

lemma retries_budget:
  "retries c a \<Longrightarrow> budget c = Suc (budget (c\<lparr>retryCount := retryCount c + 1\<rparr>))"
  by (cases a) (auto simp: budget_def shouldRetry_def)

lemma retries_retryable: "retries c a \<Longrightarrow> retryable_status (attempt_status a)"
  by (cases a) (auto simp: shouldRetry_def retryable_status_def)

lemma retryable_retries:
  "retryable_status (attempt_status a) \<Longrightarrow>
   retries c a \<longleftrightarrow> int (retryCount c) < maxRetries (retryConfig c)"
  by (cases a) (auto simp: shouldRetry_def retryable_status_def response_ok_def)

lemma send_chain_induct [case_names step]:
  assumes "\<And>fetch rnd c.
     (retries c (fetch 0) \<Longrightarrow>
        P (\<lambda>k. fetch (Suc k)) (\<lambda>k. rnd (Suc k)) (c\<lparr>retryCount := retryCount c + 1\<rparr>)) \<Longrightarrow>
     P fetch rnd c"
  shows "P fetch rnd c"
proof (induction "budget c" arbitrary: fetch rnd c)
  case 0
  show ?case
  proof (rule assms)
    assume "retries c (fetch 0)"
    from retries_budget[OF this] 0 show
      "P (\<lambda>k. fetch (Suc k)) (\<lambda>k. rnd (Suc k)) (c\<lparr>retryCount := retryCount c + 1\<rparr>)"
      by simp
  qed
next
  case (Suc n)
  show ?case
  proof (rule assms)
    assume "retries c (fetch 0)"
    from retries_budget[OF this] Suc.hyps(2)
    have "n = budget (c\<lparr>retryCount := retryCount c + 1\<rparr>)" by simp
    then show "P (\<lambda>k. fetch (Suc k)) (\<lambda>k. rnd (Suc k)) (c\<lparr>retryCount := retryCount c + 1\<rparr>)"
      by (rule Suc.hyps(1))
  qed
qed

lemma send_client: "client_after (send pf fetch rnd m d i c) = c\<lparr>retryCount := 0\<rparr>"
proof (induction fetch rnd c rule: send_chain_induct)
  case (step fetch rnd c)
  then show ?case
    by (subst send_unfold) (simp add: after_wait_def)
qed

lemma send_calls:
  "calls (send pf fetch rnd m d i c) =
     replicate (Suc (length (waits (send pf fetch rnd m d i c)))) (fetch_call c m d i)"
proof (induction fetch rnd c rule: send_chain_induct)
  case (step fetch rnd c)
  then show ?case
    by (subst (1 2) send_unfold) (simp add: after_wait_def)
qed

lemma send_length_calls:
  "length (calls (send pf fetch rnd m d i c)) =
     Suc (length (waits (send pf fetch rnd m d i c)))"
  by (subst send_calls) simp

lemma send_result_last:
  "result (send pf fetch rnd m d i c) =
     outcome_of pf (fetch (length (waits (send pf fetch rnd m d i c))))"
proof (induction fetch rnd c rule: send_chain_induct)
  case (step fetch rnd c)
  then show ?case
    by (subst (1 2) send_unfold) (simp add: after_wait_def)
qed

lemma send_waits_le_budget:
  "length (waits (send pf fetch rnd m d i c)) \<le> budget c"
proof (induction fetch rnd c rule: send_chain_induct)
  case (step fetch rnd c)
  show ?case
  proof (cases "retries c (fetch 0)")
    case True
    from step[OF True] retries_budget[OF True] True show ?thesis
      by (subst send_unfold) (simp add: after_wait_def)
  next
    case False
    then show ?thesis by (subst send_unfold) simp
  qed
qed

lemma send_exhausts:
  "\<forall>k \<le> budget c. retryable_status (attempt_status (fetch k)) \<Longrightarrow>
   length (waits (send pf fetch rnd m d i c)) = budget c"
proof (induction fetch rnd c rule: send_chain_induct)
  case (step fetch rnd c)
  show ?case
  proof (cases "retries c (fetch 0)")
    case True
    note b = retries_budget[OF True]
    from step.prems b have "\<forall>k \<le> budget (c\<lparr>retryCount := retryCount c + 1\<rparr>).
        retryable_status (attempt_status (fetch (Suc k)))" by simp
    from step.IH[OF True this] True b show ?thesis
      by (subst send_unfold) (simp add: after_wait_def)
  next
    case False
    from step.prems have "retryable_status (attempt_status (fetch 0))" by simp
    from retryable_retries[OF this, of c] False have "budget c = 0"
      by (simp add: budget_def)
    with False show ?thesis
      by (subst send_unfold) simp
  qed
qed

lemma send_waits_nth:
  "k < length (waits (send pf fetch rnd m d i c)) \<Longrightarrow>
   waits (send pf fetch rnd m d i c) ! k =
     wait_after pf (fetch k) (c\<lparr>retryCount := retryCount c + k + 1\<rparr>) (rnd k)"
proof (induction fetch rnd c arbitrary: k rule: send_chain_induct)
  case (step fetch rnd c)
  show ?case
  proof (cases "retries c (fetch 0)")
    case True
    show ?thesis
    proof (cases k)
      case 0
      with True show ?thesis by (subst send_unfold) (simp add: after_wait_def)
    next
      case (Suc j)
      with step.prems True
      have "j < length (waits (send pf (\<lambda>k. fetch (Suc k)) (\<lambda>k. rnd (Suc k)) m d i
                (c\<lparr>retryCount := retryCount c + 1\<rparr>)))"
        by (subst (asm) send_unfold) (simp add: after_wait_def)
      from step.IH[OF True this] True Suc show ?thesis
        by (subst send_unfold) (simp add: after_wait_def)
    qed
  next
    case False
    with step.prems show ?thesis by (subst (asm) send_unfold) simp
  qed
qed

lemma send_retried_attempt:
  "k < length (waits (send pf fetch rnd m d i c)) \<Longrightarrow>
   retryable_status (attempt_status (fetch k))"
proof (induction fetch rnd c arbitrary: k rule: send_chain_induct)
  case (step fetch rnd c)
  show ?case
  proof (cases "retries c (fetch 0)")
    case True
    show ?thesis
    proof (cases k)
      case 0
      with True show ?thesis by (simp add: retries_retryable)
    next
      case (Suc j)
      with step.prems True
      have "j < length (waits (send pf (\<lambda>k. fetch (Suc k)) (\<lambda>k. rnd (Suc k)) m d i
                (c\<lparr>retryCount := retryCount c + 1\<rparr>)))"
        by (subst (asm) send_unfold) (simp add: after_wait_def)
      from step.IH[OF True this] Suc show ?thesis by simp
    qed
  next
    case False
    with step.prems show ?thesis by (subst (asm) send_unfold) simp
  qed
qed

lemma sample_client_simps [simp]:
  "retryCount (sample_client n) = 0"
  "maxRetries (retryConfig (sample_client n)) = n"
  "baseDelay (retryConfig (sample_client n)) = 1000"
  "maxDelay (retryConfig (sample_client n)) = 60000"
  by (simp_all add: sample_client_def new_RequestClient_def DEFAULT_RETRY_CONFIG_def)

lemma sample_response_simps [simp]:
  "resp_status (sample_response st hs body) = st"
  "resp_statusText (sample_response st hs body) = []"
  "resp_headers (sample_response st hs body) = hs"
  "resp_text (sample_response st hs body) = body"
  by (simp_all add: sample_response_def)

lemma send_calls_set:
  "set (calls (send pf fetch rnd m d i c)) = {fetch_call c m d i}"
  by (subst send_calls) (simp only: set_replicate_Suc)

lemma retryAfterMs_hinted: "retryAfterMs parseFloat_plain (hinted st) = Some 2500"
  by (simp add: hinted_def retryAfterMs_def retryAfterSeconds_def retryAfterHeader_def
      parseFloat_plain_def lit_def is_digit_def digits_value_def)

lemma hinted_run_waits:
  "length (waits (send parseFloat_plain hinted_transport (\<lambda>k. 1 / 2) POST () None (sample_client 3))) = 2"
  apply (subst send_unfold)
  apply (simp add: hinted_transport_def hinted_def response_ok_def shouldRetry_def after_wait_def)
  apply (subst send_unfold)
  apply (simp add: hinted_transport_def hinted_def response_ok_def shouldRetry_def after_wait_def)
  apply (subst send_unfold)
  apply (simp add: hinted_transport_def hinted_def response_ok_def shouldRetry_def after_wait_def)
  done

lemma not_found_run:
  "send pf (\<lambda>k. not_found_with_hint h) rnd m d i c =
     \<lparr>result = errorResult pf (sample_response 404 [lit ''retry-after'' \<mapsto> h] []),
      client_after = c\<lparr>retryCount := 0\<rparr>, calls = [fetch_call c m d i], waits = []\<rparr>"
  by (subst send_unfold) (simp add: not_found_with_hint_def shouldRetry_def response_ok_def)

section \<open>Facts about the backoff\<close>

lemma calculateBackoff_affine:
  assumes "0 < baseDelay (retryConfig c)" "baseDelay (retryConfig c) \<le> maxDelay (retryConfig c)"
    and "0 \<le> u"
  shows "calculateBackoff c u = capped_exponential c * (9 / 10 + u / 5)"
proof -
  have e: "0 < capped_exponential c"
    using assms(1,2) by (simp add: capped_exponential_def)
  have "capped_exponential c + capped_exponential c * 0.2 * (u - 0.5) =
        capped_exponential c * (9 / 10 + u / 5)"
    by (simp add: field_simps)
  moreover have "0 \<le> capped_exponential c * (9 / 10 + u / 5)"
    using e assms(3) by simp
  ultimately show ?thesis
    by (simp add: calculateBackoff_def Let_def capped_exponential_def)
qed

lemma capped_exponential_mono:
  assumes "0 < baseDelay (retryConfig c)"
  shows "capped_exponential c \<le> capped_exponential (c\<lparr>retryCount := retryCount c + 1\<rparr>)"
proof -
  have "baseDelay (retryConfig c) * 2 ^ retryCount c \<le> baseDelay (retryConfig c) * 2 ^ (retryCount c + 1)"
    using assms by simp
  then show ?thesis
    by (auto simp: capped_exponential_def min_def)
qed

lemma sum_midpoints: "(\<Sum>j<n. (real j + 1 / 2)) = (real n)\<^sup>2 / 2"
  by (induction n) (simp_all add: power2_eq_square algebra_simps)

lemma mean_backoff_eq:
  assumes "0 < baseDelay (retryConfig c)" "baseDelay (retryConfig c) \<le> maxDelay (retryConfig c)"
    and "0 < n"
  shows "mean_backoff c n = capped_exponential c"
proof -
  have "(\<Sum>j<n. calculateBackoff c ((real j + 1 / 2) / real n)) =
        (\<Sum>j<n. capped_exponential c * (9 / 10 + ((real j + 1 / 2) / real n) / 5))"
    by (rule sum.cong) (simp_all add: calculateBackoff_affine[OF assms(1,2)])
  also have "\<dots> = capped_exponential c * (real n * (9 / 10) + (\<Sum>j<n. (real j + 1 / 2)) / (real n * 5))"
    by (simp add: sum_distrib_left[symmetric] sum.distrib sum_divide_distrib[symmetric])
  also have "\<dots> = capped_exponential c * real n"
    using assms(3) by (simp add: sum_midpoints power2_eq_square algebra_simps)
  finally show ?thesis
    using assms(3) by (simp add: mean_backoff_def)
qed

section \<open>Facts about \<open>validate\<close>\<close>

lemma validate_fields_throws:
  "(\<exists>e. validate_fields fs = Inl e) \<longleftrightarrow>
     (\<exists>f \<in> set fs. length_or_0 (field_name f) > 255 \<or> length_or_0 (field_value f) > 1024)"
  by (induction fs) auto

lemma validate_embeds_throws:
  "(\<exists>e. validate_embeds es = Inl e) \<longleftrightarrow>
     (\<exists>em \<in> set es. length_or_0 (embed_fields em) > 25 \<or>
         (\<exists>f \<in> set (or_empty (embed_fields em)).
            length_or_0 (field_name f) > 255 \<or> length_or_0 (field_value f) > 1024))"
proof (induction es)
  case Nil
  show ?case by simp
next
  case (Cons em es)
  show ?case
  proof (cases "validate_fields (or_empty (embed_fields em))")
    case (Inl e)
    then have "\<exists>f \<in> set (or_empty (embed_fields em)).
            length_or_0 (field_name f) > 255 \<or> length_or_0 (field_value f) > 1024"
      using validate_fields_throws[of "or_empty (embed_fields em)"] by blast
    with Inl show ?thesis by auto
  next
    case (Inr u)
    then have "\<not> (\<exists>e. validate_fields (or_empty (embed_fields em)) = Inl e)" by simp
    then have "\<not> (\<exists>f \<in> set (or_empty (embed_fields em)).
            length_or_0 (field_name f) > 255 \<or> length_or_0 (field_value f) > 1024)"
      using validate_fields_throws[of "or_empty (embed_fields em)"] by blast
    with Inr Cons.IH show ?thesis by auto
  qed
qed

lemma validate_throws: "(\<exists>e. validate w = Inl e) \<longleftrightarrow> exceeds_limits w"
  using validate_embeds_throws[of "or_empty (embeds w)"]
  by (auto simp: validate_def exceeds_limits_def)

section \<open>The claims\<close>

text \<open>
  C1. A client whose counter starts at 0, with \<open>maxRetries = N\<close>, on a transport whose every
  attempt yields a retryable outcome (status 429, status 0, or a status from 500 to 599; a
  thrown value counts as status 0): \<open>send\<close> calls \<open>fetch\<close> exactly \<open>N + 1\<close> times and returns
  \<open>ok = false\<close> with the failure of the last attempt.
\<close>

theorem send_bounded_retries:
  assumes "retryCount c = 0" and "maxRetries (retryConfig c) = int N"
    and "\<forall>k \<le> N. retryable_status (attempt_status (fetch k))"
  shows "length (calls (send pf fetch rnd m d i c)) = N + 1 \<and>
         ok (result (send pf fetch rnd m d i c)) = False \<and>
         result (send pf fetch rnd m d i c) =
           (case fetch N of Responds response \<Rightarrow> errorResult pf response
            | Throws e \<Rightarrow> networkResult e)"
proof -
  from assms(1,2) have b: "budget c = N" by (simp add: budget_def)
  with assms(3) have w: "length (waits (send pf fetch rnd m d i c)) = N"
    using send_exhausts[of c fetch pf rnd m d i] by simp
  from assms(3) have "retryable_status (attempt_status (fetch N))" by simp
  then have o: "outcome_of pf (fetch N) =
      (case fetch N of Responds response \<Rightarrow> errorResult pf response | Throws e \<Rightarrow> networkResult e)"
    by (cases "fetch N") (auto simp: retryable_status_def response_ok_def)
  have r: "result (send pf fetch rnd m d i c) = outcome_of pf (fetch N)"
    using send_result_last[of pf fetch rnd m d i c] w by simp
  have "ok (outcome_of pf (fetch N)) = False"
    unfolding o by (cases "fetch N") (simp_all add: errorResult_def networkResult_def)
  with r o w show ?thesis by (simp add: send_length_calls)
qed

theorem send_bounded_retries_witness:
  "length (calls (send parseFloat_plain
      (\<lambda>k. Responds (sample_response 500 Map.empty [])) (\<lambda>k. 0) POST () None
      (sample_client 2))) = 3 \<and>
   ok (result (send parseFloat_plain
      (\<lambda>k. Responds (sample_response 500 Map.empty [])) (\<lambda>k. 0) POST () None
      (sample_client 2))) = False \<and>
   status (result (send parseFloat_plain
      (\<lambda>k. Responds (sample_response 500 Map.empty [])) (\<lambda>k. 0) POST () None
      (sample_client 2))) = 500"
  using send_bounded_retries[of "sample_client 2" 2
      "\<lambda>k. Responds (sample_response 500 Map.empty [])" parseFloat_plain "\<lambda>k. 0" POST "()" None]
  by (simp add: retryable_status_def errorResult_def)

text \<open>
  C2. For every attempt of \<open>send\<close> that is followed by a retry (the \<open>k\<close>-th, counted
  from 0): when it is a response with status 429 whose headers gave a retry hint, the wait
  before the next attempt is the hint in milliseconds; when its status is not 429 (status 0
  or a status from 500 to 599, a thrown value counting as 0), the wait is the computed
  backoff for the incremented counter, whether or not a hint is present.
\<close>

theorem send_wait_precedence:
  assumes "k < length (waits (send pf fetch rnd m d i c))"
  shows "(\<forall>response ms. fetch k = Responds response \<and> resp_status response = 429 \<and>
             retryAfterMs pf response = Some ms \<longrightarrow>
             waits (send pf fetch rnd m d i c) ! k = ms) \<and>
         (attempt_status (fetch k) \<noteq> 429 \<longrightarrow>
             waits (send pf fetch rnd m d i c) ! k =
               calculateBackoff (c\<lparr>retryCount := retryCount c + k + 1\<rparr>) (rnd k)) \<and>
         retryable_status (attempt_status (fetch k))"
proof -
  note w = send_waits_nth[OF assms]
  show ?thesis
    unfolding w using send_retried_attempt[OF assms]
    by (cases "fetch k") auto
qed

theorem send_wait_precedence_witness:
  "waits (send parseFloat_plain hinted_transport (\<lambda>k. 1 / 2) POST () None (sample_client 3)) ! 0 = 2500 \<and>
   waits (send parseFloat_plain hinted_transport (\<lambda>k. 1 / 2) POST () None (sample_client 3)) ! 1 = 4000"
proof -
  have k0: "0 < length (waits (send parseFloat_plain hinted_transport (\<lambda>k. 1 / 2) POST () None (sample_client 3)))"
    and k1: "1 < length (waits (send parseFloat_plain hinted_transport (\<lambda>k. 1 / 2) POST () None (sample_client 3)))"
    by (simp_all add: hinted_run_waits)
  from send_wait_precedence[OF k0] retryAfterMs_hinted[of 429]
  have "waits (send parseFloat_plain hinted_transport (\<lambda>k. 1 / 2) POST () None (sample_client 3)) ! 0 = 2500"
    by (simp add: hinted_transport_def hinted_def)
  moreover from send_wait_precedence[OF k1]
  have "waits (send parseFloat_plain hinted_transport (\<lambda>k. 1 / 2) POST () None (sample_client 3)) ! 1 = 4000"
    by (simp add: hinted_transport_def hinted_def calculateBackoff_def)
  ultimately show ?thesis by simp
qed

text \<open>
  C3. What the code does with the two cancellation options: each \<open>fetch\<close> call of
  \<open>send\<close> carries the signal of the internal controller as soon as \<open>timeoutMs\<close> is truthy,
  and the caller's signal only when it is not. With both options the caller's signal never
  reaches \<open>fetch\<close>, so only the timer can abort the attempt.
\<close>

theorem send_signal_wiring:
  assumes "call \<in> set (calls (send pf fetch rnd m d (Some x) c))"
  shows "call_signal call =
           (if truthy (timeoutMs x) then Some ControllerSignal
            else map_option CallerSignal (signal x))"
proof -
  have "set (calls (send pf fetch rnd m d (Some x) c)) = {fetch_call c m d (Some x)}"
    by (subst send_calls) (simp only: set_replicate_Suc)
  with assms have "call = fetch_call c m d (Some x)" by simp
  then show ?thesis by (simp add: fetch_call_def)
qed

theorem send_signal_wiring_witness:
  "call_signal (hd (calls (send parseFloat_plain
      (\<lambda>k. Responds (sample_response 204 Map.empty [])) (\<lambda>k. 0) POST () (Some both_options)
      (sample_client 3)))) = Some ControllerSignal"
proof -
  let ?cs = "calls (send parseFloat_plain
      (\<lambda>k. Responds (sample_response 204 Map.empty [])) (\<lambda>k. 0) POST () (Some both_options)
      (sample_client 3))"
  have "?cs \<noteq> []" using send_length_calls[of parseFloat_plain
      "\<lambda>k. Responds (sample_response 204 Map.empty [])" "\<lambda>k. 0" POST "()" "Some both_options" "sample_client 3"]
    by auto
  then have "hd ?cs \<in> set ?cs" by simp
  from send_signal_wiring[OF this] show ?thesis by (simp add: both_options_def)
qed

text \<open>
  C4, amended. When the attempt that ends \<open>send\<close> is a response, the result's
  \<open>retryAfter\<close> is defined exactly when the \<open>retry-after\<close> header (or, when that header is
  absent, \<open>x-ratelimit-reset-after\<close>) is non-empty and parses to a finite number other than
  zero, and it is then that number times 1000. A negative number is kept, as the
  counterexample shows: the header \<open>-5\<close> yields \<open>retryAfter = -5000\<close>.
\<close>

theorem send_retryAfter_hint:
  assumes "fetch (length (calls (send pf fetch rnd m d i c)) - 1) = Responds response"
  shows "retryAfter (result (send pf fetch rnd m d i c)) = Some ms \<longleftrightarrow>
           (\<exists>h x. retryAfterHeader response = Some h \<and> h \<noteq> [] \<and> pf h = Fin x \<and> x \<noteq> 0 \<and>
                  ms = x * 1000)"
proof -
  from assms have "result (send pf fetch rnd m d i c) = outcome_of pf (Responds response)"
    using send_result_last[of pf fetch rnd m d i c] by (simp add: send_length_calls)
  then have "retryAfter (result (send pf fetch rnd m d i c)) = retryAfterMs pf response"
    by (simp add: successResult_def errorResult_def)
  moreover have "retryAfterMs pf response = Some ms \<longleftrightarrow>
           (\<exists>h x. retryAfterHeader response = Some h \<and> h \<noteq> [] \<and> pf h = Fin x \<and> x \<noteq> 0 \<and>
                  ms = x * 1000)"
    by (cases "retryAfterHeader response"; cases "pf (the (retryAfterHeader response))")
       (auto simp: retryAfterMs_def retryAfterSeconds_def Let_def)
  ultimately show ?thesis by simp
qed

theorem send_retryAfter_hint_witness:
  "retryAfter (result (send parseFloat_plain (\<lambda>k. not_found_with_hint (lit ''2.5'')) (\<lambda>k. 0)
      POST () None (sample_client 3))) = Some 2500"
proof -
  let ?r = "sample_response 404 [lit ''retry-after'' \<mapsto> lit ''2.5''] []"
  have "retryAfterHeader ?r = Some (lit ''2.5'')"
    by (simp add: retryAfterHeader_def)
  moreover have "parseFloat_plain (lit ''2.5'') = Fin (5 / 2)"
    by (simp add: parseFloat_plain_def lit_def is_digit_def digits_value_def)
  moreover have "lit ''2.5'' \<noteq> []" by (simp add: lit_def)
  ultimately have "\<exists>h x. retryAfterHeader ?r = Some h \<and> h \<noteq> [] \<and>
      parseFloat_plain h = Fin x \<and> x \<noteq> 0 \<and> 2500 = x * 1000"
    by (intro exI[of _ "lit ''2.5''"] exI[of _ "5 / 2"]) simp
  moreover have "(\<lambda>k. not_found_with_hint (lit ''2.5''))
      (length (calls (send parseFloat_plain (\<lambda>k. not_found_with_hint (lit ''2.5'')) (\<lambda>k. 0)
         POST () None (sample_client 3))) - 1) = Responds ?r"
    by (simp add: not_found_with_hint_def)
  ultimately show ?thesis
    using send_retryAfter_hint[of "\<lambda>k. not_found_with_hint (lit ''2.5'')" parseFloat_plain
      "\<lambda>k. 0" POST "()" None "sample_client 3" ?r 2500]
    by blast
qed

theorem negative_hint_counterexample:
  "retryAfter (result (send parseFloat_plain (\<lambda>k. not_found_with_hint (lit ''-5'')) (\<lambda>k. 0)
      POST () None (sample_client 3))) = Some (- 5000) \<and>
   parseFloat_plain (lit ''-5'') = Fin (- 5) \<and> \<not> (0::real) < - 5"
  by (simp add: not_found_run errorResult_def retryAfterMs_def retryAfterSeconds_def
      retryAfterHeader_def parseFloat_plain_def lit_def is_digit_def digits_value_def)

text \<open>
  C5. For a retry policy with \<open>0 < baseDelay \<le> maxDelay\<close>, any counter value and any
  draw \<open>u\<close> from 0 to 1 (so \<open>u - 0.5\<close> lies between -0.5 and 0.5): the delay is
  \<open>max(0, e + e * 0.2 * (u - 0.5))\<close> with \<open>e = min(maxDelay, baseDelay * 2^retryCount)\<close>; it
  lies between 0 and \<open>maxDelay * 1.2\<close>; its mean over equally spaced draws is \<open>e\<close>, which does
  not decrease when the counter grows and never exceeds \<open>maxDelay\<close>; and for each single
  draw the delay does not decrease when the counter grows.
\<close>

theorem calculateBackoff_bounds:
  assumes "0 < baseDelay (retryConfig c)" "baseDelay (retryConfig c) \<le> maxDelay (retryConfig c)"
    and "0 \<le> u" "u \<le> 1" and "0 < n"
  shows "calculateBackoff c u =
           max 0 (capped_exponential c + capped_exponential c * 0.2 * (u - 0.5)) \<and>
         0 \<le> calculateBackoff c u \<and>
         calculateBackoff c u \<le> maxDelay (retryConfig c) * 1.2 \<and>
         mean_backoff c n = capped_exponential c \<and>
         mean_backoff c n \<le> mean_backoff (c\<lparr>retryCount := retryCount c + 1\<rparr>) n \<and>
         mean_backoff c n \<le> maxDelay (retryConfig c) \<and>
         calculateBackoff c u \<le> calculateBackoff (c\<lparr>retryCount := retryCount c + 1\<rparr>) u"
proof -
  have f: "calculateBackoff c u =
           max 0 (capped_exponential c + capped_exponential c * 0.2 * (u - 0.5))"
    by (simp add: calculateBackoff_def Let_def capped_exponential_def)
  have e0: "0 < capped_exponential c" and e1: "capped_exponential c \<le> maxDelay (retryConfig c)"
    using assms(1,2) by (simp_all add: capped_exponential_def)
  have a: "calculateBackoff c u = capped_exponential c * (9 / 10 + u / 5)"
    by (rule calculateBackoff_affine[OF assms(1,2,3)])
  have lo: "0 \<le> calculateBackoff c u"
    unfolding a using e0 assms(3) by simp
  have "capped_exponential c * (9 / 10 + u / 5) \<le> capped_exponential c * (12 / 10)"
    using e0 assms(4) by (intro mult_left_mono) simp_all
  also have "\<dots> \<le> maxDelay (retryConfig c) * (12 / 10)"
    using e1 by simp
  finally have hi: "calculateBackoff c u \<le> maxDelay (retryConfig c) * 1.2"
    unfolding a by simp
  have m: "mean_backoff c n = capped_exponential c"
    by (rule mean_backoff_eq[OF assms(1,2,5)])
  have m': "mean_backoff (c\<lparr>retryCount := retryCount c + 1\<rparr>) n =
      capped_exponential (c\<lparr>retryCount := retryCount c + 1\<rparr>)"
    using assms(1,2) by (intro mean_backoff_eq[OF _ _ assms(5)]) simp_all
  have a': "calculateBackoff (c\<lparr>retryCount := retryCount c + 1\<rparr>) u =
      capped_exponential (c\<lparr>retryCount := retryCount c + 1\<rparr>) * (9 / 10 + u / 5)"
    using assms(1,2) by (intro calculateBackoff_affine[OF _ _ assms(3)]) simp_all
  have pw: "calculateBackoff c u \<le> calculateBackoff (c\<lparr>retryCount := retryCount c + 1\<rparr>) u"
    unfolding a a' using capped_exponential_mono[OF assms(1)] assms(3)
    by (intro mult_right_mono) simp_all
  from f lo hi m m' capped_exponential_mono[OF assms(1)] e1 pw show ?thesis by simp
qed

theorem calculateBackoff_bounds_witness:
  "calculateBackoff retried_client (1 / 4) = 7600 \<and>
   0 \<le> calculateBackoff retried_client (1 / 4) \<and>
   calculateBackoff retried_client (1 / 4) \<le> 72000 \<and>
   mean_backoff retried_client 4 = 8000 \<and>
   mean_backoff retried_client 4 \<le> mean_backoff (retried_client\<lparr>retryCount := 4\<rparr>) 4"
  using calculateBackoff_bounds[of retried_client "1 / 4" 4]
  by (simp add: retried_client_def capped_exponential_def)

text \<open>
  C6. Whatever the counter was and whatever the transport does, \<open>send\<close> returns, and the
  client's \<open>retryCount\<close> is 0 afterwards.
\<close>

theorem send_resets_retryCount:
  "retryCount (client_after (send pf fetch rnd m d i c)) = 0"
  by (simp add: send_client)

theorem send_resets_retryCount_witness:
  "retryCount (client_after (send parseFloat_plain
      (\<lambda>k. Responds (sample_response 500 Map.empty [])) (\<lambda>k. 0) POST () None
      (sample_client 2))) = 0"
  by (rule send_resets_retryCount)

text \<open>
  C7. When the first attempt is a response with a status from 300 to 499 other than 429,
  \<open>send\<close> makes exactly one \<open>fetch\<close> call, whatever \<open>maxRetries\<close> and the counter are, and
  returns \<open>ok = false\<close> with that status and a non-empty error message (the body text, else
  the reason phrase, else \<open>HTTP\<close> and the status).
\<close>

theorem send_terminal_status:
  assumes "fetch 0 = Responds response"
    and "300 \<le> resp_status response" and "resp_status response < 500"
    and "resp_status response \<noteq> 429"
  shows "length (calls (send pf fetch rnd m d i c)) = 1 \<and>
         ok (result (send pf fetch rnd m d i c)) = False \<and>
         status (result (send pf fetch rnd m d i c)) = resp_status response \<and>
         error (result (send pf fetch rnd m d i c)) =
           Some (or_else (resp_text response) (or_else (resp_statusText response)
                   (lit ''HTTP '' @ toString_nat (resp_status response)))) \<and>
         or_else (resp_text response) (or_else (resp_statusText response)
                   (lit ''HTTP '' @ toString_nat (resp_status response))) \<noteq> []"
proof -
  from assms have "\<not> retries c (fetch 0)" by (simp add: shouldRetry_def response_ok_def)
  moreover from assms have "\<not> response_ok response" by (simp add: response_ok_def)
  ultimately show ?thesis
    using assms(1) by (subst (1 2 3 4) send_unfold) (simp add: errorResult_def or_else_def lit_def)
qed

theorem send_terminal_status_witness:
  "length (calls (send parseFloat_plain
      (\<lambda>k. Responds (sample_response 404 Map.empty [])) (\<lambda>k. 0) POST () None
      (sample_client 3))) = 1 \<and>
   ok (result (send parseFloat_plain
      (\<lambda>k. Responds (sample_response 404 Map.empty [])) (\<lambda>k. 0) POST () None
      (sample_client 3))) = False \<and>
   status (result (send parseFloat_plain
      (\<lambda>k. Responds (sample_response 404 Map.empty [])) (\<lambda>k. 0) POST () None
      (sample_client 3))) = 404 \<and>
   error (result (send parseFloat_plain
      (\<lambda>k. Responds (sample_response 404 Map.empty [])) (\<lambda>k. 0) POST () None
      (sample_client 3))) = Some (lit ''HTTP 404'')"
  using send_terminal_status[of "\<lambda>k. Responds (sample_response 404 Map.empty [])"
      "sample_response 404 Map.empty []" parseFloat_plain "\<lambda>k. 0" POST "()" None "sample_client 3"]
  by (simp add: or_else_def lit_def)

text \<open>
  C8. When the transport throws and the counter is not below \<open>maxRetries\<close>, \<open>send\<close> makes
  exactly one attempt and returns a value: \<open>ok = false\<close>, \<open>status = 0\<close>, no \<open>retryAfter\<close>, and
  the thrown value's message as the error, or \<open>Network error\<close> when that message is empty.
\<close>

theorem send_transport_failure_no_budget:
  assumes "fetch 0 = Throws e"
    and "\<not> int (retryCount c) < maxRetries (retryConfig c)"
  shows "length (calls (send pf fetch rnd m d i c)) = 1 \<and>
         result (send pf fetch rnd m d i c) =
           \<lparr>ok = False, status = 0, retryAfter = None, bodyText = None,
            error = Some (if thrown_message e = [] then lit ''Network error''
                          else thrown_message e)\<rparr>"
proof -
  from assms have "\<not> retries c (fetch 0)" by (simp add: shouldRetry_def)
  then show ?thesis
    using assms(1) by (subst (1 2) send_unfold) (simp add: networkResult_def or_else_def)
qed

theorem send_transport_failure_no_budget_witness:
  "length (calls (send parseFloat_plain
      (\<lambda>k. Throws (ErrorObject (lit ''connect ECONNREFUSED''))) (\<lambda>k. 0) POST () None
      (sample_client 0))) = 1 \<and>
   result (send parseFloat_plain
      (\<lambda>k. Throws (ErrorObject (lit ''connect ECONNREFUSED''))) (\<lambda>k. 0) POST () None
      (sample_client 0)) =
     \<lparr>ok = False, status = 0, retryAfter = None, bodyText = None,
      error = Some (lit ''connect ECONNREFUSED'')\<rparr>"
  using send_transport_failure_no_budget[of "\<lambda>k. Throws (ErrorObject (lit ''connect ECONNREFUSED''))"
      "ErrorObject (lit ''connect ECONNREFUSED'')" "sample_client 0" parseFloat_plain "\<lambda>k. 0" POST "()" None]
  by (simp add: lit_def)

text \<open>
  C9. For every result of \<open>send\<close>: \<open>ok\<close> is true exactly when the status is from 200 to
  299, the status is that of the last attempt (0 for a thrown value), and no result has
  status 0 together with \<open>ok = true\<close>.
\<close>

theorem send_ok_iff_success_status:
  "(ok (result (send pf fetch rnd m d i c)) \<longleftrightarrow>
      200 \<le> status (result (send pf fetch rnd m d i c)) \<and>
      status (result (send pf fetch rnd m d i c)) < 300) \<and>
   status (result (send pf fetch rnd m d i c)) =
      attempt_status (fetch (length (calls (send pf fetch rnd m d i c)) - 1)) \<and>
   \<not> (status (result (send pf fetch rnd m d i c)) = 0 \<and> ok (result (send pf fetch rnd m d i c)))"
proof -
  let ?a = "fetch (length (waits (send pf fetch rnd m d i c)))"
  have r: "result (send pf fetch rnd m d i c) = outcome_of pf ?a"
    by (rule send_result_last)
  have "(ok (outcome_of pf ?a) \<longleftrightarrow> 200 \<le> status (outcome_of pf ?a) \<and> status (outcome_of pf ?a) < 300)
      \<and> status (outcome_of pf ?a) = attempt_status ?a"
    by (cases ?a)
       (auto simp: successResult_def errorResult_def networkResult_def response_ok_def)
  then show ?thesis
    unfolding r by (auto simp: send_length_calls)
qed

theorem send_ok_iff_success_status_witness:
  "status (result (send parseFloat_plain
      (\<lambda>k. Throws (ErrorObject (lit ''connect ECONNREFUSED''))) (\<lambda>k. 0) POST () None
      (sample_client 0))) = 0 \<and>
   \<not> ok (result (send parseFloat_plain
      (\<lambda>k. Throws (ErrorObject (lit ''connect ECONNREFUSED''))) (\<lambda>k. 0) POST () None
      (sample_client 0)))"
proof -
  let ?r = "result (send parseFloat_plain
      (\<lambda>k. Throws (ErrorObject (lit ''connect ECONNREFUSED''))) (\<lambda>k. 0) POST () None
      (sample_client 0))"
  have "status ?r = 0" by (subst send_unfold) (simp add: shouldRetry_def networkResult_def)
  with send_ok_iff_success_status[of parseFloat_plain
      "\<lambda>k. Throws (ErrorObject (lit ''connect ECONNREFUSED''))" "\<lambda>k. 0" POST "()" None "sample_client 0"]
  show ?thesis by simp
qed

text \<open>
  C10. A webhook whose message exceeds a size limit (content over 2000 code units, more
  than 10 embeds, an embed with more than 25 fields, a field name over 255 or a field value
  over 1024): \<open>Webhook.send\<close> throws the \<open>ValidationError\<close> of \<open>validate\<close>, makes no \<open>fetch\<close>
  call and leaves the webhook as it was. Otherwise it is the client's \<open>send\<close> with method
  \<open>POST\<close> and the object of \<open>toObject\<close>, and every \<open>fetch\<close> call it makes is a \<open>POST\<close> of that
  object.
\<close>

theorem Webhook_send_validates_first:
  "(exceeds_limits w \<longrightarrow>
      (\<exists>e. validate w = Inl e \<and>
           Webhook_send pf fetch rnd i w =
             \<lparr>webhook_after = w, requests = [], pauses = [], outcome = Inl e\<rparr>)) \<and>
   (\<not> exceeds_limits w \<longrightarrow>
      Webhook_send pf fetch rnd i w =
        \<lparr>webhook_after = w\<lparr>client := client_after (send pf fetch rnd POST (toObject w) i (client w))\<rparr>,
         requests = calls (send pf fetch rnd POST (toObject w) i (client w)),
         pauses = waits (send pf fetch rnd POST (toObject w) i (client w)),
         outcome = Inr (result (send pf fetch rnd POST (toObject w) i (client w)))\<rparr> \<and>
      requests (Webhook_send pf fetch rnd i w) \<noteq> [] \<and>
      (\<forall>call \<in> set (requests (Webhook_send pf fetch rnd i w)).
         call_method call = POST \<and> call_body call = Some (toObject w)))"
proof (cases "exceeds_limits w")
  case True
  then obtain e where "validate w = Inl e" using validate_throws[of w] by blast
  with True show ?thesis by (simp add: Webhook_send_def)
next
  case False
  then have "\<not> (\<exists>e. validate w = Inl e)" by (simp add: validate_throws)
  then obtain u where v: "validate w = Inr u" by (cases "validate w") auto
  have s: "set (calls (send pf fetch rnd POST (toObject w) i (client w))) =
      {fetch_call (client w) POST (toObject w) i}"
    by (subst send_calls) (simp only: set_replicate_Suc)
  have ne: "calls (send pf fetch rnd POST (toObject w) i (client w)) \<noteq> []"
    using send_length_calls[of pf fetch rnd POST "toObject w" i "client w"] by auto
  from False v s ne show ?thesis
    by (simp add: Webhook_send_def Let_def fetch_call_def)
qed

theorem Webhook_send_validates_first_witness:
  "outcome (Webhook_send parseFloat_plain (\<lambda>k. Responds (sample_response 204 Map.empty []))
      (\<lambda>k. 0) None (sample_webhook (Some (replicate 2001 97)))) =
     Inl \<lparr>message = ''Content length exceeds 2000 characters'', field = Some ''content'',
          maxLength = Some 2000, actualLength = Some 2001\<rparr> \<and>
   requests (Webhook_send parseFloat_plain (\<lambda>k. Responds (sample_response 204 Map.empty []))
      (\<lambda>k. 0) None (sample_webhook (Some (replicate 2001 97)))) = [] \<and>
   webhook_after (Webhook_send parseFloat_plain (\<lambda>k. Responds (sample_response 204 Map.empty []))
      (\<lambda>k. 0) None (sample_webhook (Some (replicate 2001 97)))) =
     sample_webhook (Some (replicate 2001 97)) \<and>
   map call_method (requests (Webhook_send parseFloat_plain
      (\<lambda>k. Responds (sample_response 204 Map.empty [])) (\<lambda>k. 0) None
      (sample_webhook (Some (lit ''Hello''))))) = [POST]"
proof -
  let ?bad = "sample_webhook (Some (replicate 2001 97))"
  let ?good = "sample_webhook (Some (lit ''Hello''))"
  let ?f = "\<lambda>k::nat. Responds (sample_response 204 Map.empty [])"
  have b: "exceeds_limits ?bad"
    by (simp add: exceeds_limits_def sample_webhook_def length_or_0_def)
  have vb: "validate ?bad = Inl \<lparr>message = ''Content length exceeds 2000 characters'',
      field = Some ''content'', maxLength = Some 2000, actualLength = Some 2001\<rparr>"
    by (simp add: validate_def sample_webhook_def length_or_0_def)
  have g: "\<not> exceeds_limits ?good"
    by (simp add: exceeds_limits_def sample_webhook_def length_or_0_def or_empty_def lit_def)
  have one: "length (calls (send parseFloat_plain ?f (\<lambda>k. 0) POST (toObject ?good) None (client ?good))) = 1"
    by (subst send_unfold) (simp add: response_ok_def)
  then obtain x where x: "calls (send parseFloat_plain ?f (\<lambda>k. 0) POST (toObject ?good) None (client ?good)) = [x]"
    by (auto simp: length_Suc_conv)
  from Webhook_send_validates_first[of ?bad parseFloat_plain ?f "\<lambda>k. 0" None] b vb
  have "Webhook_send parseFloat_plain ?f (\<lambda>k. 0) None ?bad =
      \<lparr>webhook_after = ?bad, requests = [], pauses = [],
       outcome = Inl \<lparr>message = ''Content length exceeds 2000 characters'',
          field = Some ''content'', maxLength = Some 2000, actualLength = Some 2001\<rparr>\<rparr>"
    by auto
  moreover
  from Webhook_send_validates_first[of ?good parseFloat_plain ?f "\<lambda>k. 0" None] g
  have r: "requests (Webhook_send parseFloat_plain ?f (\<lambda>k. 0) None ?good) =
        calls (send parseFloat_plain ?f (\<lambda>k. 0) POST (toObject ?good) None (client ?good))"
    and "\<forall>call \<in> set (requests (Webhook_send parseFloat_plain ?f (\<lambda>k. 0) None ?good)).
         call_method call = POST"
    by simp_all
  then have "map call_method (requests (Webhook_send parseFloat_plain ?f (\<lambda>k. 0) None ?good)) = [POST]"
    by (simp add: x)
  ultimately show ?thesis by simp
qed

end
